theory Spec2Isabelle
  imports Complex_Main "HOL-Library.AList"
begin

section \<open>The benchmark adapter \<open>Vsag\<close> (ann\_benchmarks/algorithms/vsag/module.py)\<close>

text \<open>
  The adapter maps the harness interface (\<open>__init__\<close>, \<open>fit\<close>, \<open>set_query_arguments\<close>,
  \<open>query\<close>) onto calls into the native library \<open>pyvsag\<close>. The embedding follows the
  source line by line, with these conventions.

  \<^item> A Python \<open>dict\<close> is an association list in insertion order; \<open>d[k] = v\<close> is
    \<open>AList.update k v d\<close> (overwrite in place, or append), \<open>d[k]\<close> is \<open>map_of d k\<close> with
    \<open>None\<close> raising \<open>KeyError k\<close>.
  \<^item> A numpy array is a list of scalars of an arbitrary type \<open>'f\<close>: a 1-D array is an
    \<open>'f list\<close>, a 2-D array the list of its rows. The floating-point operations that
    the adapter applies to them (\<open>np.linalg.norm\<close>, \<open>/\<close>, \<open>== 0\<close>,
    \<open>1.0 / np.sqrt(n)\<close>, \<open>astype(np.float32)\<close>) are parameters, a record \<open>np\<close>:
    what is proved for every \<open>np\<close> holds for numpy's rounding, overflow and underflow,
    whichever they are.
  \<^item> An exception is a value \<open>Inl e\<close> of the sum type \<open>error + 'a\<close>.
  \<^item> The library \<open>pyvsag\<close> is not part of the adapter: it is a parameter, a record of
    the three entry points that the adapter calls, over an arbitrary type \<open>'idx\<close> of index
    objects.
  \<^item> Every method returns, beside its result, the list of the library calls it made, so
    that "what the adapter passes to the library" is a property of the method's value.
  \<^item> \<open>print\<close> only writes to standard output and is left out.
\<close>

subsection \<open>Values, JSON documents, errors\<close>

text \<open>Scalar values found in \<open>method_param\<close> (the harness reads them from YAML).\<close>

datatype pyval = PInt int | PFloat real | PStr string | PBool bool

text \<open>Python's \<open>x != 0\<close> on such a value (\<open>True == 1\<close>, \<open>False == 0\<close>, a string never equals 0).\<close>

fun ne_zero :: "pyval \<Rightarrow> bool" where
  "ne_zero (PInt i) = (i \<noteq> 0)"
| "ne_zero (PFloat r) = (r \<noteq> 0)"
| "ne_zero (PStr s) = True"
| "ne_zero (PBool b) = b"

type_synonym pydict = "(string \<times> pyval) list"

text \<open>The JSON-serialisable trees that the adapter builds as dict literals.\<close>

datatype json = JVal pyval | JObj "(string \<times> json) list"

text \<open>
  \<open>json.dumps(t)\<close>: the text of the tree \<open>t\<close>. The rendering of the scalars is left
  symbolic: two texts are equal exactly when the trees are.
\<close>

datatype json_text = json_dumps json

text \<open>
  \<open>fmt % args\<close>: the formatted string, with the rendering of the arguments left symbolic
  in the same way.
\<close>

datatype pyobj = OInt int | ODict pydict

datatype pystr = Format string "pyobj list"

text \<open>
  The Python exceptions of the adapter, and the failures of the library (which reach
  Python as exceptions too).
\<close>

datatype error =
    KeyError string
  | IndexError
  | AttributeError string
  | DimensionMismatch
  | AlreadyBuilt
  | NotBuilt
  | InvalidParameters

subsection \<open>The library interface\<close>

text \<open>The keyword arguments \<open>vectors\<close>, \<open>ids\<close>, \<open>num_elements\<close>, \<open>dim\<close> of \<open>Index.build\<close>.\<close>

record 'f build_args =
  arg_vectors :: "'f list"
  arg_ids :: "int list"
  arg_num_elements :: nat
  arg_dim :: nat

text \<open>
  \<open>pyvsag.Index(name, parameters)\<close>, \<open>index.build(...)\<close> (which returns the index object
  as it is after the call) and \<open>index.knn_search(vector, k, parameters)\<close>, which returns
  the pair \<open>(ids, dists)\<close>. Each may raise.
\<close>

record ('idx, 'f) pyvsag =
  Index :: "string \<Rightarrow> json_text \<Rightarrow> error + 'idx"
  build :: "'idx \<Rightarrow> 'f build_args \<Rightarrow> error + 'idx"
  knn_search :: "'idx \<Rightarrow> 'f list \<Rightarrow> int \<Rightarrow> json_text \<Rightarrow> error + (int list \<times> 'f list)"

text \<open>
  The calls that a method makes into the library, in the order it makes them, with the
  arguments it passes; every method of the adapter returns this list beside its result.
\<close>

datatype 'f call =
    is_Call_Index: Call_Index string json_text
  | is_Call_build: Call_build "'f build_args"
  | is_Call_knn_search: Call_knn_search "'f list" int json_text

subsection \<open>The adapter object\<close>

text \<open>
  The attributes \<open>_metric\<close>, \<open>_params\<close>, \<open>name\<close>, \<open>_ef\<close> and \<open>_index\<close> of a \<open>Vsag\<close>
  object; \<open>_index\<close> does not exist before \<open>fit\<close> has assigned it.
\<close>

record 'idx vsag =
  self_metric :: string
  self_params :: pydict
  self_name :: pystr
  self_ef :: int
  self_index :: "'idx option"

text \<open>\<open>d[k]\<close> for a dict \<open>d\<close>: raises \<open>KeyError\<close> on a missing key.\<close>

definition getitem :: "(string \<times> 'v) list \<Rightarrow> string \<Rightarrow> error + 'v" where
  "getitem d k = (case map_of d k of None \<Rightarrow> Inl (KeyError k) | Some v \<Rightarrow> Inr v)"

text \<open>
  \<open>Vsag.__init__(self, metric, dim, method_param)\<close>. The lookups raise in the order of
  the source: the metric table first, then \<open>"M"\<close>, \<open>"ef_construction"\<close>, \<open>"use_int8"\<close>.
  The argument \<open>dim\<close> is not used by the source.
\<close>

definition init :: "string \<Rightarrow> int \<Rightarrow> pydict \<Rightarrow> error + 'idx vsag" where
  "init metric dimension method_param =
    (case getitem [(''euclidean'', ''l2''), (''angular'', ''ip'')] metric of
       Inl e \<Rightarrow> Inl e
     | Inr m \<Rightarrow>
    (case getitem method_param ''M'' of
       Inl e \<Rightarrow> Inl e
     | Inr M \<Rightarrow>
    (case getitem method_param ''ef_construction'' of
       Inl e \<Rightarrow> Inl e
     | Inr efc \<Rightarrow>
    (case getitem method_param ''use_int8'' of
       Inl e \<Rightarrow> Inl e
     | Inr use_int8 \<Rightarrow>
       let p0 = AList.update ''M'' M [];
           p1 = AList.update ''efc'' efc p0;
           p2 = AList.update ''sq'' (PInt (- 1)) p1;
           p3 = (if ne_zero use_int8 then AList.update ''sq'' use_int8 p2 else p2);
           p4 = (case map_of method_param ''alpha'' of
                   Some a \<Rightarrow> AList.update ''a'' a p3
                 | None \<Rightarrow> AList.update ''a'' (PFloat 1) p3);
           p5 = (case map_of method_param ''rs'' of
                   Some r \<Rightarrow> AList.update ''rs'' r p4
                 | None \<Rightarrow> AList.update ''rs'' (PInt 1) p4)
       in Inr \<lparr> self_metric = m,
                 self_params = p5,
                 self_name = Format ''vsag (%s)'' [ODict p5],
                 self_ef = 0,
                 self_index = None \<rparr>))))"

subsection \<open>numpy operations used by the adapter\<close>

text \<open>
  The floating-point operations, on numpy scalars \<open>'f\<close>:
  \<^item> \<open>linalg_norm v\<close> is \<open>np.linalg.norm(v)\<close> of a 1-D array;
  \<^item> \<open>linalg_norm_row r\<close> is the component of \<open>np.linalg.norm(X, axis=1)\<close> for the row
    \<open>r\<close> of \<open>X\<close> (numpy reduces every row by itself);
  \<^item> \<open>eq_zero a\<close> is \<open>a == 0\<close>;
  \<^item> \<open>true_divide a b\<close> is \<open>a / b\<close>, and \<open>true_divide_1 a\<close> is \<open>a / 1\<close> for the
    Python integer 1;
  \<^item> \<open>recip_sqrt n\<close> is \<open>1.0 / np.sqrt(n)\<close> for an integer \<open>n\<close>, as an assignment
    stores it in the array;
  \<^item> \<open>astype_float32 a\<close> is the component-wise effect of \<open>astype(np.float32)\<close>.
\<close>

record 'f numpy =
  linalg_norm :: "'f list \<Rightarrow> 'f"
  linalg_norm_row :: "'f list \<Rightarrow> 'f"
  eq_zero :: "'f \<Rightarrow> bool"
  true_divide :: "'f \<Rightarrow> 'f \<Rightarrow> 'f"
  true_divide_1 :: "'f \<Rightarrow> 'f"
  recip_sqrt :: "nat \<Rightarrow> 'f"
  astype_float32 :: "'f \<Rightarrow> 'f"

text \<open>\<open>np.linalg.norm(X, axis=1)\<close>: the norm of every row.\<close>

definition linalg_norm_axis1 :: "'f numpy \<Rightarrow> 'f list list \<Rightarrow> 'f list" where
  "linalg_norm_axis1 np X = map (linalg_norm_row np) X"

text \<open>\<open>X[mask] = c\<close> with a boolean mask over the rows: every entry of a masked row becomes \<open>c\<close>.\<close>

definition setitem_mask :: "'f list list \<Rightarrow> bool list \<Rightarrow> 'f \<Rightarrow> 'f list list" where
  "setitem_mask X msk c = map2 (\<lambda>r b. if b then map (\<lambda>_. c) r else r) X msk"

text \<open>\<open>X /= d[:, np.newaxis]\<close>: row \<open>i\<close> is divided by \<open>d[i]\<close>.\<close>

definition idiv_rows :: "'f numpy \<Rightarrow> 'f list list \<Rightarrow> 'f list \<Rightarrow> 'f list list" where
  "idiv_rows np X d = map2 (\<lambda>r n. map (\<lambda>c. true_divide np c n) r) X d"

text \<open>
  The two statements of the \<open>ip\<close> branch of \<open>fit\<close>, as the new contents of the array
  \<open>X\<close>; \<open>X.shape[1]\<close> is the length of the first row (the source has already evaluated
  \<open>X[0]\<close> when it gets here). The rows overwritten are those whose computed norm
  compares equal to 0.
\<close>

definition fill_zero_rows :: "'f numpy \<Rightarrow> 'f list list \<Rightarrow> 'f list list" where
  "fill_zero_rows np X =
     setitem_mask X (map (eq_zero np) (linalg_norm_axis1 np X)) (recip_sqrt np (length (hd X)))"

definition divide_by_norm :: "'f numpy \<Rightarrow> 'f list list \<Rightarrow> 'f list list" where
  "divide_by_norm np X = idiv_rows np X (linalg_norm_axis1 np X)"

text \<open>A 2-D numpy array has rows of one length.\<close>

definition ndarray2 :: "'f list list \<Rightarrow> bool" where
  "ndarray2 X = list_all (\<lambda>r. length r = length (hd X)) X"

subsection \<open>The caller's arrays\<close>

text \<open>
  \<open>fit\<close> receives a reference to the caller's array and writes through it, so arrays
  live in a store and \<open>fit\<close> takes the address of \<open>X\<close>.
\<close>

type_synonym addr = nat
type_synonym 'f store = "addr \<Rightarrow> 'f list list"

subsection \<open>\<open>fit\<close>, \<open>set_query_arguments\<close>, \<open>query\<close>\<close>

text \<open>
  \<open>Vsag.fit(self, X)\<close>, with \<open>X\<close> at address \<open>x\<close>. The result is the outcome (an
  exception or a normal return), the adapter object and the store as the call leaves
  them, and the library calls made. \<open>X[0]\<close> raises \<open>IndexError\<close> on an array without
  rows. An exception raised by \<open>build\<close> comes after \<open>_index\<close> was assigned and \<open>X\<close> was
  written.
\<close>

definition fit ::
  "'f numpy \<Rightarrow> ('idx, 'f) pyvsag \<Rightarrow> 'idx vsag \<Rightarrow> 'f store \<Rightarrow> addr
     \<Rightarrow> (error + unit) \<times> 'idx vsag \<times> 'f store \<times> 'f call list" where
  "fit np lib self st x =
    (case st x of
       [] \<Rightarrow> (Inl IndexError, self, st, [])
     | r0 # _ \<Rightarrow>
    (case getitem (self_params self) ''M'' of
       Inl e \<Rightarrow> (Inl e, self, st, [])
     | Inr M \<Rightarrow>
    (case getitem (self_params self) ''efc'' of
       Inl e \<Rightarrow> (Inl e, self, st, [])
     | Inr efc \<Rightarrow>
       let index_params = JObj
             [(''dtype'', JVal (PStr ''float32'')),
              (''metric_type'', JVal (PStr (if self_metric self = ''l2'' then ''l2'' else ''ip''))),
              (''dim'', JVal (PInt (int (length r0)))),
              (''hnsw'', JObj [(''max_degree'', JVal M), (''ef_construction'', JVal efc)])];
           c_Index = Call_Index ''hnsw'' (json_dumps index_params)
       in
    (case Index lib ''hnsw'' (json_dumps index_params) of
       Inl e \<Rightarrow> (Inl e, self, st, [c_Index])
     | Inr idx \<Rightarrow>
       let self1 = self\<lparr>self_index := Some idx\<rparr>;
           st1 = (if self_metric self1 = ''ip''
                  then let st' = st(x := fill_zero_rows np (st x))
                       in st'(x := divide_by_norm np (st' x))
                  else st);
           X_flat = map (astype_float32 np) (concat (st1 x));
           ids = map int [0..<length (st1 x)];
           args = \<lparr>arg_vectors = X_flat, arg_ids = ids,
                   arg_num_elements = length (st1 x), arg_dim = length (hd (st1 x))\<rparr>
       in
    (case build lib idx args of
       Inl e \<Rightarrow> (Inl e, self1, st1, [c_Index, Call_build args])
     | Inr idx' \<Rightarrow> (Inr (), self1\<lparr>self_index := Some idx'\<rparr>, st1, [c_Index, Call_build args]))))))"

text \<open>\<open>Vsag.set_query_arguments(self, ef)\<close>.\<close>

definition set_query_arguments :: "'idx vsag \<Rightarrow> int \<Rightarrow> 'idx vsag" where
  "set_query_arguments self ef =
     (let self1 = self\<lparr>self_ef := ef\<rparr>
      in self1\<lparr>self_name :=
                 Format ''efs_%s_%s'' [OInt (self_ef self1), ODict (self_params self1)]\<rparr>)"

text \<open>
  \<open>Vsag.query(self, v, n)\<close>: the outcome, the adapter object after the call and the
  library calls made. The local \<open>length\<close> is the Python integer 1 (here \<open>None\<close>) or a
  computed norm (\<open>Some l\<close>); the integer 1 does not compare equal to 0. Reading
  \<open>self._index\<close> before \<open>fit\<close> has assigned it raises \<open>AttributeError\<close>; the source gets
  there after it has computed \<open>query_vec\<close>.
\<close>

definition query ::
  "'f numpy \<Rightarrow> ('idx, 'f) pyvsag \<Rightarrow> 'idx vsag \<Rightarrow> 'f list \<Rightarrow> int
     \<Rightarrow> (error + int list) \<times> 'idx vsag \<times> 'f call list" where
  "query np lib self v n =
    (let search_params = JObj [(''hnsw'', JObj [(''ef_search'', JVal (PInt (self_ef self)))])];
         length0 = None;
         length1 = (if self_metric self = ''ip'' then Some (linalg_norm np v) else length0);
         length2 = (case length1 of
                      None \<Rightarrow> None
                    | Some l \<Rightarrow> if eq_zero np l then None else Some l);
         query_vec = map (\<lambda>c. astype_float32 np
                           (case length2 of
                              None \<Rightarrow> true_divide_1 np c
                            | Some l \<Rightarrow> true_divide np c l)) v
     in
    (case self_index self of
       None \<Rightarrow> (Inl (AttributeError ''_index''), self, [])
     | Some idx \<Rightarrow>
    (case knn_search lib idx query_vec n (json_dumps search_params) of
       Inl e \<Rightarrow> (Inl e, self, [Call_knn_search query_vec n (json_dumps search_params)])
     | Inr (res_ids, res_dists) \<Rightarrow>
         (Inr res_ids, self, [Call_knn_search query_vec n (json_dumps search_params)]))))"

subsection \<open>Runs of the adapter\<close>

text \<open>
  The harness calls the methods one after the other on one object; a caller may catch an
  exception and go on, so a run continues with the object and the store as the failed
  call left them.
\<close>

datatype 'f op =
    is_Fit: Fit addr
  | is_Set_query_arguments: Set_query_arguments int
  | is_Query: Query "'f list" int

fun step ::
  "'f numpy \<Rightarrow> ('idx, 'f) pyvsag \<Rightarrow> 'idx vsag \<times> 'f store \<Rightarrow> 'f op \<Rightarrow> 'idx vsag \<times> 'f store" where
  "step np lib (self, st) (Fit x) =
     (case fit np lib self st x of (r, self', st', cs) \<Rightarrow> (self', st'))"
| "step np lib (self, st) (Set_query_arguments ef) = (set_query_arguments self ef, st)"
| "step np lib (self, st) (Query v n) =
     (case query np lib self v n of (r, self', cs) \<Rightarrow> (self', st))"

definition run ::
  "'f numpy \<Rightarrow> ('idx, 'f) pyvsag \<Rightarrow> 'idx vsag \<times> 'f store \<Rightarrow> 'f op list \<Rightarrow> 'idx vsag \<times> 'f store" where
  "run np lib s ops = foldl (step np lib) s ops"

text \<open>Projections of a method's result.\<close>

definition calls_fit ::
  "(error + unit) \<times> 'idx vsag \<times> 'f store \<times> 'f call list \<Rightarrow> 'f call list" where
  "calls_fit r = snd (snd (snd r))"

definition store_fit ::
  "(error + unit) \<times> 'idx vsag \<times> 'f store \<times> 'f call list \<Rightarrow> 'f store" where
  "store_fit r = fst (snd (snd r))"

definition calls_query :: "(error + int list) \<times> 'idx vsag \<times> 'f call list \<Rightarrow> 'f call list" where
  "calls_query r = snd (snd r)"

subsection \<open>The native index, after its specification\<close>

text \<open>
  Modelled from the spec: the Index Facade and the Searcher of the native library
  (\<open>pyvsag.Index\<close>, \<open>build\<close>, \<open>knn_search\<close>), whose code is not part of the adapter. The
  facade is in state \<open>Created\<close> until \<open>build\<close> has run; \<open>build\<close> is callable once
  (\<open>AlreadyBuilt\<close>), \<open>knn_search\<close> needs a built index (\<open>NotBuilt\<close>); a vector whose
  length is not the configured dimension is a \<open>DimensionMismatch\<close>; a search on an index
  without vectors returns an empty list, never an error; a search returns at most \<open>k\<close>
  external ids, in order of non-decreasing distance. The graph traversal of the Searcher
  is replaced by an exact scan, which meets that contract. The spec names no error for a
  configuration outside the ranges it states; the model rejects it with
  \<open>InvalidParameters\<close>.
\<close>

record spec_index =
  cfg_metric_type :: string
  cfg_dim :: nat
  cfg_max_degree :: int
  cfg_ef_construction :: int
  built :: "(int \<times> real list) list option"

text \<open>Modelled from the spec: the configuration fields of section 6, read from the JSON text.\<close>

definition spec_Index :: "string \<Rightarrow> json_text \<Rightarrow> error + spec_index" where
  "spec_Index name parameters =
    (case parameters of json_dumps (JObj fs) \<Rightarrow>
      (case (map_of fs ''metric_type'', map_of fs ''dim'', map_of fs ''hnsw'') of
         (Some (JVal (PStr m)), Some (JVal (PInt d)), Some (JObj hs)) \<Rightarrow>
           (case (map_of hs ''max_degree'', map_of hs ''ef_construction'') of
              (Some (JVal (PInt M)), Some (JVal (PInt efc))) \<Rightarrow>
                if (m = ''l2'' \<or> m = ''ip'') \<and> 0 < d \<and> 0 < M \<and> 0 < efc
                then Inr \<lparr>cfg_metric_type = m, cfg_dim = nat d, cfg_max_degree = M,
                          cfg_ef_construction = efc, built = None\<rparr>
                else Inl InvalidParameters
            | _ \<Rightarrow> Inl InvalidParameters)
       | _ \<Rightarrow> Inl InvalidParameters)
     | _ \<Rightarrow> Inl InvalidParameters)"

text \<open>
  Modelled from the spec: \<open>build\<close> of section 4.5. The flat array holds
  \<open>num_elements\<close> rows of \<open>dim\<close> components; row \<open>i\<close> is stored under the external id
  \<open>ids[i]\<close>, in insertion order.
\<close>

definition spec_build :: "spec_index \<Rightarrow> real build_args \<Rightarrow> error + spec_index" where
  "spec_build idx args =
    (if built idx \<noteq> None then Inl AlreadyBuilt
     else if arg_dim args \<noteq> cfg_dim idx
           \<or> length (arg_vectors args) \<noteq> arg_num_elements args * arg_dim args
     then Inl DimensionMismatch
     else Inr (idx\<lparr>built := Some (zip (arg_ids args)
                 (map (\<lambda>i. take (arg_dim args) (drop (i * arg_dim args) (arg_vectors args)))
                    [0..<arg_num_elements args]))\<rparr>))"

text \<open>
  Modelled from the spec: the Distance Engine of section 4.2; the inner-product distance
  of two unit vectors is 0 when they are equal.
\<close>

definition distance :: "string \<Rightarrow> real list \<Rightarrow> real list \<Rightarrow> real" where
  "distance m a b =
    (if m = ''l2'' then sqrt (\<Sum>(p, q)\<leftarrow>zip a b. (p - q)\<^sup>2)
     else 1 - (\<Sum>(p, q)\<leftarrow>zip a b. p * q))"

text \<open>
  Modelled from the spec: \<open>knn_search\<close> of sections 4.4, 4.5, 6 and 7. The empty index
  is answered before the query is looked at ("never an error").
\<close>

definition spec_knn_search ::
  "spec_index \<Rightarrow> real list \<Rightarrow> int \<Rightarrow> json_text \<Rightarrow> error + (int list \<times> real list)" where
  "spec_knn_search idx vector k parameters =
    (case built idx of
       None \<Rightarrow> Inl NotBuilt
     | Some entries \<Rightarrow>
         if entries = [] then Inr ([], [])
         else if length vector \<noteq> cfg_dim idx then Inl DimensionMismatch
         else let scored = map (\<lambda>(i, w). (i, distance (cfg_metric_type idx) vector w)) entries;
                  ranked = take (nat k) (sort_key snd scored)
              in Inr (map fst ranked, map snd ranked))"

definition spec_pyvsag :: "(spec_index, real) pyvsag" where
  "spec_pyvsag = \<lparr>Index = spec_Index, build = spec_build, knn_search = spec_knn_search\<rparr>"

subsection \<open>Concrete inputs\<close>

text \<open>
  A library that accepts every call and finds nothing, and small inputs, for running the
  adapter on concrete values. \<open>exact_numpy\<close> computes without rounding on the reals. It
  agrees with numpy wherever numpy's operations are exact, as they are on the inputs
  below (zeros, ones and halves; \<open>sqrt 4 = 2\<close>); its \<open>x / 0\<close> is HOL's, and no component
  of these inputs is divided by zero or overwritten with \<open>1 / sqrt 0\<close> (the array
  without columns has no component).
\<close>

definition exact_norm :: "real list \<Rightarrow> real" where
  "exact_norm v = sqrt (\<Sum>c\<leftarrow>v. c\<^sup>2)"

definition exact_numpy :: "real numpy" where
  "exact_numpy =
     \<lparr>linalg_norm = exact_norm,
      linalg_norm_row = exact_norm,
      eq_zero = (\<lambda>a. a = 0),
      true_divide = (\<lambda>a b. a / b),
      true_divide_1 = (\<lambda>a. a / 1),
      recip_sqrt = (\<lambda>n. 1 / sqrt (real n)),
      astype_float32 = (\<lambda>a. a)\<rparr>"

definition null_pyvsag :: "(unit, real) pyvsag" where
  "null_pyvsag =
     \<lparr>Index = (\<lambda>name parameters. Inr ()),
      build = (\<lambda>idx args. Inr idx),
      knn_search = (\<lambda>idx vector k parameters. Inr ([], []))\<rparr>"

definition ex_method_param :: pydict where
  "ex_method_param = [(''M'', PInt 16), (''ef_construction'', PInt 200), (''use_int8'', PInt 0)]"

definition ex_store :: "real store" where
  "ex_store = (\<lambda>a. [])(0 := [[1, 0], [0, 0]])"

definition ex_store4 :: "real store" where
  "ex_store4 = (\<lambda>a. [])(0 := [[1, 0, 0, 0], [0, 0, 0, 0]])"


definition ex_params :: pydict where
  "ex_params = [(''M'', PInt 16), (''efc'', PInt 200), (''sq'', PInt (- 1)),
                (''a'', PFloat 1), (''rs'', PInt 1)]"

definition ex_self :: "string \<Rightarrow> 'idx option \<Rightarrow> 'idx vsag" where
  "ex_self m i =
     \<lparr>self_metric = m, self_params = ex_params,
      self_name = Format ''vsag (%s)'' [ODict ex_params], self_ef = 0, self_index = i\<rparr>"

subsection \<open>Auxiliary notions for the statements\<close>

text \<open>
  The value most recently passed to \<open>set_query_arguments\<close> in a run, and \<open>e\<close> when the
  run has no such call.
\<close>

fun last_ef :: "int \<Rightarrow> 'f op list \<Rightarrow> int" where
  "last_ef e [] = e"
| "last_ef e (Set_query_arguments ef # ops) = last_ef ef ops"
| "last_ef e (Fit x # ops) = last_ef e ops"
| "last_ef e (Query v n # ops) = last_ef e ops"

section \<open>Properties\<close>

subsection \<open>The two statements of the \<open>ip\<close> branch\<close>

lemma map2_map_right: "map2 g X (map f X) = map (\<lambda>r. g r (f r)) X"
  by (induction X) simp_all

lemma fill_zero_rows_map:
  "fill_zero_rows np X =
     map (\<lambda>r. if eq_zero np (linalg_norm_row np r)
               then map (\<lambda>_. recip_sqrt np (length (hd X))) r else r) X"
  by (simp add: fill_zero_rows_def setitem_mask_def linalg_norm_axis1_def map2_map_right o_def)

lemma divide_by_norm_map:
  "divide_by_norm np X = map (\<lambda>r. map (\<lambda>c. true_divide np c (linalg_norm_row np r)) r) X"
  by (simp add: divide_by_norm_def idiv_rows_def linalg_norm_axis1_def map2_map_right)

lemma normalized_rows:
  "divide_by_norm np (fill_zero_rows np X) =
     map (\<lambda>r. let r' = (if eq_zero np (linalg_norm_row np r)
                         then map (\<lambda>_. recip_sqrt np (length (hd X))) r else r)
               in map (\<lambda>c. true_divide np c (linalg_norm_row np r')) r') X"
  by (simp add: divide_by_norm_map fill_zero_rows_map Let_def o_def)

subsection \<open>What \<open>fit\<close> calls and writes once the library has accepted the index\<close>

lemma fit_accepted:
  fixes np :: "'f numpy"
  assumes "st x = r0 # rows"
      and "map_of (self_params self) ''M'' = Some M"
      and "map_of (self_params self) ''efc'' = Some efc"
      and "Index lib ''hnsw'' (json_dumps (JObj
             [(''dtype'', JVal (PStr ''float32'')),
              (''metric_type'', JVal (PStr (if self_metric self = ''l2'' then ''l2'' else ''ip''))),
              (''dim'', JVal (PInt (int (length r0)))),
              (''hnsw'', JObj [(''max_degree'', JVal M), (''ef_construction'', JVal efc)])]))
           = Inr idx"
  defines "X' \<equiv> (if self_metric self = ''ip''
                   then divide_by_norm np (fill_zero_rows np (st x)) else st x)"
  shows "calls_fit (fit np lib self st x) =
           [Call_Index ''hnsw'' (json_dumps (JObj
             [(''dtype'', JVal (PStr ''float32'')),
              (''metric_type'', JVal (PStr (if self_metric self = ''l2'' then ''l2'' else ''ip''))),
              (''dim'', JVal (PInt (int (length r0)))),
              (''hnsw'', JObj [(''max_degree'', JVal M), (''ef_construction'', JVal efc)])])),
            Call_build \<lparr>arg_vectors = map (astype_float32 np) (concat X'),
                        arg_ids = map int [0..<length (st x)],
                        arg_num_elements = length (st x), arg_dim = length r0\<rparr>]
         \<and> store_fit (fit np lib self st x) =
             (if self_metric self = ''ip'' then st(x := X') else st)"
proof -
  have hd': "length (hd (divide_by_norm np (fill_zero_rows np (st x)))) = length r0"
    by (simp add: normalized_rows assms(1) Let_def)
  have len': "length (divide_by_norm np (fill_zero_rows np (st x))) = length (st x)"
    by (simp add: normalized_rows)
  show ?thesis
  proof (cases "self_metric self = ''ip''")
    case True
    with assms(1-4) hd' len' show ?thesis
      by (auto simp: fit_def calls_fit_def store_fit_def getitem_def Let_def X'_def
               split: sum.splits)
  next
    case False
    with assms(1-4) show ?thesis
      by (auto simp: fit_def calls_fit_def store_fit_def getitem_def Let_def X'_def
               split: sum.splits)
  qed
qed

subsection \<open>Frames, and the calls of \<open>query\<close>\<close>

lemma fit_frame:
  assumes "fit np lib self st x = (r, self', st', cs)"
  shows "self_metric self' = self_metric self \<and> self_params self' = self_params self
         \<and> self_ef self' = self_ef self \<and> self_name self' = self_name self"
  using assms
  by (auto simp: fit_def Let_def split: list.splits sum.splits if_splits)

lemma query_frame: "query np lib self v n = (r, self', cs) \<Longrightarrow> self' = self"
  by (auto simp: query_def Let_def split: option.splits sum.splits prod.splits)

lemma query_calls:
  assumes "self_index self = Some idx"
  shows "calls_query (query np lib self v n) =
           [Call_knn_search
              (map (\<lambda>c. astype_float32 np
                     (if self_metric self = ''ip'' \<and> \<not> eq_zero np (linalg_norm np v)
                      then true_divide np c (linalg_norm np v) else true_divide_1 np c)) v)
              n (json_dumps (JObj [(''hnsw'', JObj [(''ef_search'', JVal (PInt (self_ef self)))])]))]"
  using assms
  by (auto simp: query_def calls_query_def Let_def split: sum.splits prod.splits)

lemma init_fields:
  assumes "init metric d mp = Inr self"
  shows "self_ef self = 0 \<and> self_index self = None
         \<and> self_metric self = (if metric = ''euclidean'' then ''l2'' else ''ip'')
         \<and> map_of (self_params self) ''M'' = map_of mp ''M''
         \<and> map_of (self_params self) ''efc'' = map_of mp ''ef_construction''"
  using assms
  by (auto simp: init_def getitem_def Let_def update_conv' split: option.splits if_splits)

subsection \<open>Runs\<close>

lemma step_ef:
  assumes "step np lib (self, st) op = (self', st')"
  shows "self_ef self' = last_ef (self_ef self) [op]"
proof (cases op)
  case (Fit x)
  with assms show ?thesis
    by (auto split: prod.splits dest: fit_frame)
next
  case (Set_query_arguments ef)
  with assms show ?thesis by (auto simp: set_query_arguments_def Let_def)
next
  case (Query v n)
  with assms show ?thesis by (auto split: prod.splits dest: query_frame)
qed

lemma last_ef_Cons: "last_ef e (op # ops) = last_ef (last_ef e [op]) ops"
  by (cases op) simp_all

lemma run_Cons: "run np lib s (op # ops) = run np lib (step np lib s op) ops"
  by (simp add: run_def)

lemma run_ef:
  "run np lib (self, st) ops = (self', st') \<Longrightarrow> self_ef self' = last_ef (self_ef self) ops"
proof (induction ops arbitrary: self st)
  case Nil
  then show ?case by (simp add: run_def)
next
  case (Cons op ops)
  obtain self1 st1 where s1: "step np lib (self, st) op = (self1, st1)"
    by (cases "step np lib (self, st) op") blast
  with Cons.prems have "run np lib (self1, st1) ops = (self', st')"
    by (simp add: run_Cons)
  then have "self_ef self' = last_ef (self_ef self1) ops" by (rule Cons.IH)
  with step_ef [OF s1] show ?case by (simp add: last_ef_Cons [of _ op ops])
qed

lemma step_frame:
  assumes "step np lib (self, st) op = (self', st')"
  shows "self_metric self' = self_metric self \<and> self_params self' = self_params self"
proof (cases op)
  case (Fit x)
  with assms show ?thesis by (auto split: prod.splits dest: fit_frame)
next
  case (Set_query_arguments ef)
  with assms show ?thesis by (auto simp: set_query_arguments_def Let_def)
next
  case (Query v n)
  with assms show ?thesis by (auto split: prod.splits dest: query_frame)
qed

lemma run_frame:
  "run np lib (self, st) ops = (self', st') \<Longrightarrow>
     self_metric self' = self_metric self \<and> self_params self' = self_params self"
proof (induction ops arbitrary: self st)
  case Nil
  then show ?case by (simp add: run_def)
next
  case (Cons op ops)
  obtain self1 st1 where s1: "step np lib (self, st) op = (self1, st1)"
    by (cases "step np lib (self, st) op") blast
  with Cons.prems have "run np lib (self1, st1) ops = (self', st')"
    by (simp add: run_Cons)
  from Cons.IH [OF this] step_frame [OF s1] show ?case by simp
qed

lemma step_no_fit:
  assumes "\<not> is_Fit op" and "step np lib (self, st) op = (self', st')"
  shows "self_index self' = self_index self \<and> st' = st"
proof (cases op)
  case (Fit x)
  with assms show ?thesis by simp
next
  case (Set_query_arguments ef)
  with assms show ?thesis by (auto simp: set_query_arguments_def Let_def)
next
  case (Query v n)
  with assms show ?thesis by (auto split: prod.splits dest: query_frame)
qed

lemma run_no_fit:
  "list_all (\<lambda>op. \<not> is_Fit op) ops \<Longrightarrow> run np lib (self, st) ops = (self', st') \<Longrightarrow>
     self_index self' = self_index self \<and> st' = st"
proof (induction ops arbitrary: self st)
  case Nil
  then show ?case by (simp add: run_def)
next
  case (Cons op ops)
  obtain self1 st1 where s1: "step np lib (self, st) op = (self1, st1)"
    by (cases "step np lib (self, st) op") blast
  with Cons.prems have r: "run np lib (self1, st1) ops = (self', st')"
    by (simp add: run_Cons)
  from Cons.prems have "\<not> is_Fit op" and "list_all (\<lambda>op. \<not> is_Fit op) ops" by simp_all
  from Cons.IH [OF this(2) r] step_no_fit [OF this(1) s1] show ?case by simp
qed

lemma run_queries:
  "list_all is_Query ops \<Longrightarrow> run np lib (self, st) ops = (self', st') \<Longrightarrow> self' = self \<and> st' = st"
proof (induction ops arbitrary: self st)
  case Nil
  then show ?case by (simp add: run_def)
next
  case (Cons op ops)
  from Cons.prems obtain w k where op: "op = Query w k" by (cases op) simp_all
  have "step np lib (self, st) op = (self, st)"
    using op by (auto split: prod.splits dest: query_frame)
  with Cons.prems have "run np lib (self, st) ops = (self', st')" by (simp add: run_Cons)
  moreover from Cons.prems have "list_all is_Query ops" by simp
  ultimately show ?case using Cons.IH by blast
qed

subsection \<open>The first call of \<open>fit\<close>\<close>

lemma fit_calls_Index:
  assumes "st x \<noteq> []"
      and "map_of (self_params self) ''M'' = Some M"
      and "map_of (self_params self) ''efc'' = Some efc"
  shows "\<exists>rest. calls_fit (fit np lib self st x) =
           Call_Index ''hnsw'' (json_dumps (JObj
             [(''dtype'', JVal (PStr ''float32'')),
              (''metric_type'', JVal (PStr (if self_metric self = ''l2'' then ''l2'' else ''ip''))),
              (''dim'', JVal (PInt (int (length (hd (st x)))))),
              (''hnsw'', JObj [(''max_degree'', JVal M), (''ef_construction'', JVal efc)])]))
           # rest
         \<and> list_all (\<lambda>c. \<not> is_Call_Index c) rest"
  using assms
  by (cases "st x") (auto simp: fit_def calls_fit_def getitem_def Let_def split: sum.splits)

subsection \<open>The result of \<open>query\<close>, and the specified index\<close>

lemma query_result:
  assumes "self_index self = Some idx"
      and "knn_search lib idx
             (map (\<lambda>c. astype_float32 np
                     (if self_metric self = ''ip'' \<and> \<not> eq_zero np (linalg_norm np v)
                      then true_divide np c (linalg_norm np v) else true_divide_1 np c)) v)
             n (json_dumps (JObj [(''hnsw'', JObj [(''ef_search'', JVal (PInt (self_ef self)))])]))
           = Inr (res_ids, res_dists)"
  shows "fst (query np lib self v n) = Inr res_ids \<and> fst (snd (query np lib self v n)) = self"
proof (cases "self_metric self = ''ip'' \<and> \<not> eq_zero np (linalg_norm np v)")
  case True
  with assms show ?thesis by (simp add: query_def Let_def)
next
  case False
  with assms show ?thesis by (auto simp: query_def Let_def)
qed

lemma spec_knn_search_empty:
  "built idx = Some [] \<Longrightarrow> spec_knn_search idx vector k parameters = Inr ([], [])"
  by (simp add: spec_knn_search_def)

subsection \<open>The concrete inputs, evaluated\<close>

lemma ex_init:
  "(init ''angular'' 2 ex_method_param :: error + 'idx vsag) = Inr (ex_self ''ip'' None)"
  "(init ''euclidean'' 2 ex_method_param :: error + 'idx vsag) = Inr (ex_self ''l2'' None)"
  by (simp_all add: init_def getitem_def ex_method_param_def ex_self_def ex_params_def Let_def)

lemma ex_fit_l2:
  "fit exact_numpy null_pyvsag (ex_self ''l2'' None) ex_store 0 =
     (Inr (), ex_self ''l2'' (Some ()), ex_store,
      [Call_Index ''hnsw'' (json_dumps (JObj
         [(''dtype'', JVal (PStr ''float32'')), (''metric_type'', JVal (PStr ''l2'')),
          (''dim'', JVal (PInt 2)),
          (''hnsw'', JObj [(''max_degree'', JVal (PInt 16)),
                           (''ef_construction'', JVal (PInt 200))])])),
       Call_build \<lparr>arg_vectors = [1, 0, 0, 0], arg_ids = [0, 1],
                   arg_num_elements = 2, arg_dim = 2\<rparr>])"
  by (simp add: fit_def getitem_def null_pyvsag_def exact_numpy_def ex_self_def ex_params_def
        ex_store_def Let_def upt_rec)

lemma ex_fit_ip:
  "fit exact_numpy null_pyvsag (ex_self ''ip'' None) ex_store4 0 =
     (Inr (), ex_self ''ip'' (Some ()),
      ex_store4(0 := [[1, 0, 0, 0], [1 / 2, 1 / 2, 1 / 2, 1 / 2]]),
      [Call_Index ''hnsw'' (json_dumps (JObj
         [(''dtype'', JVal (PStr ''float32'')), (''metric_type'', JVal (PStr ''ip'')),
          (''dim'', JVal (PInt 4)),
          (''hnsw'', JObj [(''max_degree'', JVal (PInt 16)),
                           (''ef_construction'', JVal (PInt 200))])])),
       Call_build \<lparr>arg_vectors = [1, 0, 0, 0, 1 / 2, 1 / 2, 1 / 2, 1 / 2], arg_ids = [0, 1],
                   arg_num_elements = 2, arg_dim = 4\<rparr>])"
  by (simp add: fit_def getitem_def null_pyvsag_def exact_numpy_def exact_norm_def ex_self_def
        ex_params_def ex_store4_def Let_def upt_rec fill_zero_rows_map divide_by_norm_map
        power_divide)


lemma ex_query_zero:
  "query exact_numpy null_pyvsag (ex_self ''ip'' (Some ())) [0, 0, 0, 0] 1 =
     (Inr [], ex_self ''ip'' (Some ()),
      [Call_knn_search [0, 0, 0, 0] 1
         (json_dumps (JObj [(''hnsw'', JObj [(''ef_search'', JVal (PInt 0))])]))])"
  by (simp add: query_def null_pyvsag_def exact_numpy_def exact_norm_def ex_self_def Let_def)

lemma ex_query_l2:
  "query exact_numpy null_pyvsag (ex_self ''l2'' (Some ())) [1, 0] 1 =
     (Inr [], ex_self ''l2'' (Some ()),
      [Call_knn_search [1, 0] 1
         (json_dumps (JObj [(''hnsw'', JObj [(''ef_search'', JVal (PInt 0))])]))])"
  by (simp add: query_def null_pyvsag_def exact_numpy_def ex_self_def Let_def)

text \<open>The specified index at work: \<open>fit\<close> on two rows, then the nearest neighbour of \<open>[1, 0]\<close>.\<close>

lemma spec_fit_then_query:
  "fst (query exact_numpy spec_pyvsag
          (fst (snd (fit exact_numpy spec_pyvsag (ex_self ''l2'' None) ex_store 0))) [1, 0] 1)
     = Inr [0]"
  by (simp add: fit_def query_def spec_pyvsag_def spec_Index_def spec_build_def
        spec_knn_search_def distance_def getitem_def exact_numpy_def ex_self_def ex_params_def
        ex_store_def Let_def upt_rec)

subsection \<open>Rows of a flat array\<close>


lemma ex_hyps:
  "self_metric (ex_self m i) = m"
  "map_of (self_params (ex_self m i)) ''M'' = Some (PInt 16)"
  "map_of (self_params (ex_self m i)) ''efc'' = Some (PInt 200)"
  by (simp_all add: ex_self_def ex_params_def)

subsection \<open>Exact arithmetic\<close>

text \<open>
  With no rounding, overflow or underflow, \<open>query\<close> passes a vector of norm 1 for every
  query of non-zero norm, and \<open>fit\<close> leaves rows of norm 1 in a 2-D array with at least
  one column. Both facts are about \<open>exact_numpy\<close> only: with floating-point numbers the
  quotient has norm 1 up to rounding, and not even that when the sum of squares
  overflows or underflows.
\<close>

lemma sum_list_squares_nonneg: "0 \<le> (\<Sum>x\<leftarrow>v. (x::real)\<^sup>2)"
  by (induction v) simp_all

lemma sum_list_squares_eq_0_iff: "(\<Sum>x\<leftarrow>v. (x::real)\<^sup>2) = 0 \<longleftrightarrow> (\<forall>x\<in>set v. x = 0)"
proof (induction v)
  case Nil
  show ?case by simp
next
  case (Cons a v)
  have "a\<^sup>2 + (\<Sum>x\<leftarrow>v. x\<^sup>2) = 0 \<longleftrightarrow> a\<^sup>2 = 0 \<and> (\<Sum>x\<leftarrow>v. x\<^sup>2) = 0"
    using sum_list_squares_nonneg [of v] by (intro add_nonneg_eq_0_iff) simp_all
  with Cons show ?case by simp
qed

lemma exact_norm_nonneg: "0 \<le> exact_norm v"
  by (simp add: exact_norm_def sum_list_squares_nonneg)

lemma exact_norm_eq_0_iff: "exact_norm v = 0 \<longleftrightarrow> (\<forall>x\<in>set v. x = 0)"
  by (simp add: exact_norm_def sum_list_squares_eq_0_iff)

lemma sum_list_squares_div:
  "(\<Sum>x\<leftarrow>v. ((x::real) / c)\<^sup>2) = (\<Sum>x\<leftarrow>v. x\<^sup>2) / c\<^sup>2"
  by (induction v) (simp_all add: power_divide add_divide_distrib)

lemma exact_norm_div: "exact_norm (map (\<lambda>x. x / c) v) = exact_norm v / \<bar>c\<bar>"
  by (simp add: exact_norm_def o_def sum_list_squares_div real_sqrt_divide)

lemma exact_norm_unit:
  assumes "exact_norm v \<noteq> 0"
  shows "exact_norm (map (\<lambda>x. x / exact_norm v) v) = 1"
  using assms exact_norm_nonneg [of v] by (simp add: exact_norm_div)

lemma exact_norm_fill:
  assumes "r \<noteq> []"
  shows "exact_norm (map (\<lambda>_. 1 / sqrt (real (length r))) r) = 1"
proof -
  have "0 < real (length r)" using assms by simp
  then show ?thesis
    by (simp add: exact_norm_def o_def power_divide sum_list_triv)
qed

lemma exact_query_unit_norm:
  assumes "self_metric self = ''ip''" and "self_index self = Some idx"
      and "exact_norm v \<noteq> 0"
  shows "\<exists>q. calls_query (query exact_numpy lib self v n) =
               [Call_knn_search q n
                  (json_dumps (JObj [(''hnsw'', JObj [(''ef_search'', JVal (PInt (self_ef self)))])]))]
             \<and> exact_norm q = 1"
  using query_calls [OF assms(2), of exact_numpy lib v n] assms(1,3)
  by (simp add: exact_numpy_def exact_norm_unit)

lemma exact_rows_unit_norm:
  assumes "ndarray2 X" and "hd X \<noteq> []"
  shows "list_all (\<lambda>r. exact_norm r = 1) (divide_by_norm exact_numpy (fill_zero_rows exact_numpy X))"
proof -
  let ?k = "1 / sqrt (real (length (hd X)))"
  have len: "\<forall>r\<in>set X. length r = length (hd X)"
    using assms(1) by (simp add: ndarray2_def list_all_iff)
  have fill: "exact_norm (map (\<lambda>_. ?k) r) = 1" if "r \<in> set X" for r
  proof -
    from that len assms(2) have "r \<noteq> []" and "length (hd X) = length r" by auto
    with exact_norm_fill [of r] show ?thesis by simp
  qed
  have A: "\<forall>r\<in>set X. exact_norm r = 0 \<longrightarrow>
             exact_norm (map (\<lambda>c. c / exact_norm (map (\<lambda>_. ?k) r)) (map (\<lambda>_. ?k) r)) = 1"
    using fill by simp
  have B: "\<forall>r\<in>set X. exact_norm r \<noteq> 0 \<longrightarrow> exact_norm (map (\<lambda>c. c / exact_norm r) r) = 1"
    using exact_norm_unit by blast
  from A B show ?thesis
    unfolding normalized_rows list_all_iff by (simp add: exact_numpy_def Let_def)
qed

section \<open>The claims\<close>

text \<open>
  Claim C1, as amended. Under the inner-product metric, the vector that \<open>Vsag.query\<close>
  passes to \<open>knn_search\<close> is \<open>v\<close> divided, component by component, by \<open>length\<close> and cast
  to float32, where \<open>length\<close> is the computed \<open>np.linalg.norm(v)\<close> when that does not
  compare equal to 0, and the integer 1 when it does. A query vector whose computed norm
  is 0 (the zero vector is one) is therefore divided by 1: no unit vector is put in its
  place.
\<close>

theorem query_ip_vector:
  assumes "self_metric self = ''ip''" and "self_index self = Some idx"
  shows "calls_query (query np lib self v n) =
           [Call_knn_search
              (map (\<lambda>c. astype_float32 np
                     (if eq_zero np (linalg_norm np v) then true_divide_1 np c
                      else true_divide np c (linalg_norm np v))) v)
              n (json_dumps (JObj [(''hnsw'', JObj [(''ef_search'', JVal (PInt (self_ef self)))])]))]"
proof -
  have "(\<lambda>c. astype_float32 np
            (if self_metric self = ''ip'' \<and> \<not> eq_zero np (linalg_norm np v)
             then true_divide np c (linalg_norm np v) else true_divide_1 np c))
      = (\<lambda>c. astype_float32 np
            (if eq_zero np (linalg_norm np v) then true_divide_1 np c
             else true_divide np c (linalg_norm np v)))"
    using assms(1) by auto
  with query_calls [OF assms(2), of np lib v n] show ?thesis by simp
qed

text \<open>An instance: the query \<open>[0, 1, 0, 0]\<close>, of norm 1, is passed as it is.\<close>

theorem query_ip_vector_witness:
  "self_metric (ex_self ''ip'' (Some ()) :: unit vsag) = ''ip''
   \<and> self_index (ex_self ''ip'' (Some ())) = Some ()
   \<and> calls_query (query exact_numpy null_pyvsag (ex_self ''ip'' (Some ())) [0, 1, 0, 0] 5) =
      [Call_knn_search [0, 1, 0, 0] 5
         (json_dumps (JObj [(''hnsw'', JObj [(''ef_search'', JVal (PInt 0))])]))]"
proof -
  have m: "self_metric (ex_self ''ip'' (Some ()) :: unit vsag) = ''ip''"
    and i: "self_index (ex_self ''ip'' (Some ())) = Some ()"
    by (simp_all add: ex_self_def)
  from query_ip_vector [OF m i, of exact_numpy null_pyvsag "[0, 1, 0, 0]" 5]
  have "calls_query (query exact_numpy null_pyvsag (ex_self ''ip'' (Some ())) [0, 1, 0, 0] 5) =
      [Call_knn_search [0, 1, 0, 0] 5
         (json_dumps (JObj [(''hnsw'', JObj [(''ef_search'', JVal (PInt 0))])]))]"
    by (simp add: exact_numpy_def exact_norm_def ex_self_def)
  with m i show ?thesis by (intro conjI)
qed

text \<open>
  Claim C1 as stated fails: after \<open>__init__("angular", ...)\<close> and \<open>fit\<close>, the query
  \<open>[0, 0, 0, 0]\<close> reaches \<open>knn_search\<close> as \<open>[0, 0, 0, 0]\<close>, whose norm is 0.
\<close>

theorem query_ip_zero_vector_counterexample:
  "(init ''angular'' 4 ex_method_param :: error + unit vsag) = Inr (ex_self ''ip'' None)
   \<and> fst (snd (fit exact_numpy null_pyvsag (ex_self ''ip'' None) ex_store4 0))
       = ex_self ''ip'' (Some ())
   \<and> calls_query (query exact_numpy null_pyvsag (ex_self ''ip'' (Some ())) [0, 0, 0, 0] 1) =
       [Call_knn_search [0, 0, 0, 0] 1
          (json_dumps (JObj [(''hnsw'', JObj [(''ef_search'', JVal (PInt 0))])]))]
   \<and> exact_norm [0, 0, 0, 0] = 0"
proof -
  have "(init ''angular'' 4 ex_method_param :: error + unit vsag) = Inr (ex_self ''ip'' None)"
    by (simp add: init_def getitem_def ex_method_param_def ex_self_def ex_params_def Let_def)
  then show ?thesis
    by (simp add: ex_fit_ip ex_query_zero calls_query_def exact_norm_def)
qed





text \<open>
  Claim C3. For every \<open>method_param\<close> that \<open>__init__\<close> accepts, in every state reached
  from there, the first library call of \<open>fit\<close> is \<open>pyvsag.Index("hnsw", config)\<close>, the
  only call of \<open>Index\<close> that \<open>fit\<close> makes, and \<open>config\<close> is the JSON object with exactly
  the fields \<open>dtype\<close>, \<open>metric_type\<close> (\<open>l2\<close> or \<open>ip\<close>), \<open>dim = len(X[0])\<close> and
  \<open>hnsw.{max_degree, ef_construction}\<close>, the last two being \<open>method_param["M"]\<close> and
  \<open>method_param["ef_construction"]\<close>. No quantization field occurs, and \<open>use_int8\<close>,
  \<open>alpha\<close> and \<open>rs\<close> do not occur in the configuration.
\<close>

theorem fit_index_config:
  assumes "init metric d method_param = Inr self0"
      and "map_of method_param ''M'' = Some M"
      and "map_of method_param ''ef_construction'' = Some efc"
      and "run np0 lib0 (self0, st0) ops = (self, st1)"
      and "st x \<noteq> []"
  shows "\<exists>rest. calls_fit (fit np lib self st x) =
           Call_Index ''hnsw'' (json_dumps (JObj
             [(''dtype'', JVal (PStr ''float32'')),
              (''metric_type'', JVal (PStr (if metric = ''euclidean'' then ''l2'' else ''ip''))),
              (''dim'', JVal (PInt (int (length (hd (st x)))))),
              (''hnsw'', JObj [(''max_degree'', JVal M), (''ef_construction'', JVal efc)])]))
           # rest
         \<and> list_all (\<lambda>c. \<not> is_Call_Index c) rest"
proof -
  from init_fields [OF assms(1)] run_frame [OF assms(4)] assms(2,3)
  have "map_of (self_params self) ''M'' = Some M"
    and "map_of (self_params self) ''efc'' = Some efc"
    and "self_metric self = (if metric = ''euclidean'' then ''l2'' else ''ip'')"
    by simp_all
  with fit_calls_Index [where st = st and x = x and lib = lib and np = np, OF assms(5) this(1,2)] show ?thesis
    by (cases "metric = ''euclidean''") simp_all
qed

text \<open>An instance with \<open>use_int8 = 8\<close>, \<open>alpha = 2\<close> and \<open>rs = 1/2\<close>.\<close>

theorem fit_index_config_witness:
  "(init ''angular'' 2
      [(''M'', PInt 16), (''ef_construction'', PInt 200), (''use_int8'', PInt 8),
       (''alpha'', PFloat 2), (''rs'', PFloat (1 / 2))] :: error + unit vsag)
     = Inr \<lparr>self_metric = ''ip'',
            self_params = [(''M'', PInt 16), (''efc'', PInt 200), (''sq'', PInt 8),
                           (''a'', PFloat 2), (''rs'', PFloat (1 / 2))],
            self_name = Format ''vsag (%s)''
              [ODict [(''M'', PInt 16), (''efc'', PInt 200), (''sq'', PInt 8),
                      (''a'', PFloat 2), (''rs'', PFloat (1 / 2))]],
            self_ef = 0, self_index = None\<rparr>
   \<and> ex_store 0 \<noteq> []
   \<and> (\<exists>rest. calls_fit (fit exact_numpy null_pyvsag
         \<lparr>self_metric = ''ip'',
          self_params = [(''M'', PInt 16), (''efc'', PInt 200), (''sq'', PInt 8),
                         (''a'', PFloat 2), (''rs'', PFloat (1 / 2))],
          self_name = Format ''vsag (%s)''
            [ODict [(''M'', PInt 16), (''efc'', PInt 200), (''sq'', PInt 8),
                    (''a'', PFloat 2), (''rs'', PFloat (1 / 2))]],
          self_ef = 0, self_index = None\<rparr> ex_store 0) =
           Call_Index ''hnsw'' (json_dumps (JObj
             [(''dtype'', JVal (PStr ''float32'')),
              (''metric_type'', JVal (PStr ''ip'')),
              (''dim'', JVal (PInt 2)),
              (''hnsw'', JObj [(''max_degree'', JVal (PInt 16)),
                               (''ef_construction'', JVal (PInt 200))])]))
           # rest)"
proof -
  let ?mp = "[(''M'', PInt 16), (''ef_construction'', PInt 200), (''use_int8'', PInt 8),
              (''alpha'', PFloat 2), (''rs'', PFloat (1 / 2))]"
  let ?self = "\<lparr>self_metric = ''ip'',
          self_params = [(''M'', PInt 16), (''efc'', PInt 200), (''sq'', PInt 8),
                         (''a'', PFloat 2), (''rs'', PFloat (1 / 2))],
          self_name = Format ''vsag (%s)''
            [ODict [(''M'', PInt 16), (''efc'', PInt 200), (''sq'', PInt 8),
                    (''a'', PFloat 2), (''rs'', PFloat (1 / 2))]],
          self_ef = 0, self_index = None\<rparr> :: unit vsag"
  have i: "init ''angular'' 2 ?mp = Inr ?self"
    by (simp add: init_def getitem_def Let_def)
  have M: "map_of ?mp ''M'' = Some (PInt 16)"
    and efc: "map_of ?mp ''ef_construction'' = Some (PInt 200)" by simp_all
  have r: "run exact_numpy null_pyvsag (?self, ex_store) [] = (?self, ex_store)" by (simp add: run_def)
  have ne: "ex_store 0 \<noteq> []" and d: "length (hd (ex_store 0)) = 2"
    by (simp_all add: ex_store_def)
  from fit_index_config [where st = ex_store and x = 0 and lib = null_pyvsag and np = exact_numpy,
         OF i M efc r ne]
  have "\<exists>rest. calls_fit (fit exact_numpy null_pyvsag ?self ex_store 0) =
           Call_Index ''hnsw'' (json_dumps (JObj
             [(''dtype'', JVal (PStr ''float32'')),
              (''metric_type'', JVal (PStr ''ip'')),
              (''dim'', JVal (PInt 2)),
              (''hnsw'', JObj [(''max_degree'', JVal (PInt 16)),
                               (''ef_construction'', JVal (PInt 200))])]))
           # rest"
    by (auto simp: d)
  with i ne show ?thesis by (intro conjI)
qed

text \<open>
  Claim C4. For a dataset \<open>X\<close> of \<open>n\<close> vectors (\<open>n\<close> at least 1, or \<open>fit\<close> raises
  \<open>IndexError\<close> before it calls the library), once \<open>pyvsag.Index\<close> has accepted the
  configuration \<open>fit\<close> calls \<open>build\<close>, and the external ids it passes are exactly the
  integers \<open>0, 1, ..., n-1\<close> in this order: \<open>n\<close> ids, the \<open>i\<close>-th being \<open>i\<close>, without
  repetition.
\<close>

theorem fit_ids_dense:
  assumes "st x = r0 # rows"
      and "map_of (self_params self) ''M'' = Some M"
      and "map_of (self_params self) ''efc'' = Some efc"
      and "Index lib ''hnsw'' (json_dumps (JObj
             [(''dtype'', JVal (PStr ''float32'')),
              (''metric_type'', JVal (PStr (if self_metric self = ''l2'' then ''l2'' else ''ip''))),
              (''dim'', JVal (PInt (int (length r0)))),
              (''hnsw'', JObj [(''max_degree'', JVal M), (''ef_construction'', JVal efc)])])) = Inr idx"
  shows "\<exists>vs. calls_fit (fit np lib self st x) =
           [Call_Index ''hnsw'' (json_dumps (JObj
             [(''dtype'', JVal (PStr ''float32'')),
              (''metric_type'', JVal (PStr (if self_metric self = ''l2'' then ''l2'' else ''ip''))),
              (''dim'', JVal (PInt (int (length r0)))),
              (''hnsw'', JObj [(''max_degree'', JVal M), (''ef_construction'', JVal efc)])])),
            Call_build \<lparr>arg_vectors = vs, arg_ids = map int [0..<length (st x)],
                        arg_num_elements = length (st x), arg_dim = length r0\<rparr>]
         \<and> length (map int [0..<length (st x)]) = length (st x)
         \<and> distinct (map int [0..<length (st x)])
         \<and> list_all (\<lambda>i. map int [0..<length (st x)] ! i = int i) [0..<length (st x)]"
  using fit_accepted [where np = np and st = st and x = x, OF assms, THEN conjunct1]
  by (simp add: distinct_map list_all_iff)

text \<open>An instance with two rows.\<close>

theorem fit_ids_dense_witness:
  "ex_store 0 = [1, 0] # [[0, 0]]
   \<and> Index null_pyvsag ''hnsw'' (json_dumps (JObj
             [(''dtype'', JVal (PStr ''float32'')),
              (''metric_type'', JVal (PStr ''l2'')),
              (''dim'', JVal (PInt 2)),
              (''hnsw'', JObj [(''max_degree'', JVal (PInt 16)), (''ef_construction'', JVal (PInt 200))])])) = Inr ()
   \<and> (\<exists>vs. calls_fit (fit exact_numpy null_pyvsag (ex_self ''l2'' None) ex_store 0) =
       [Call_Index ''hnsw'' (json_dumps (JObj
             [(''dtype'', JVal (PStr ''float32'')),
              (''metric_type'', JVal (PStr ''l2'')),
              (''dim'', JVal (PInt 2)),
              (''hnsw'', JObj [(''max_degree'', JVal (PInt 16)), (''ef_construction'', JVal (PInt 200))])])),
        Call_build \<lparr>arg_vectors = vs, arg_ids = [0, 1], arg_num_elements = 2, arg_dim = 2\<rparr>])"
proof -
  have X: "ex_store 0 = [1, 0] # [[0, 0]]" by (simp add: ex_store_def)
  have I: "Index null_pyvsag ''hnsw'' (json_dumps (JObj
             [(''dtype'', JVal (PStr ''float32'')),
              (''metric_type'', JVal (PStr ''l2'')),
              (''dim'', JVal (PInt 2)),
              (''hnsw'', JObj [(''max_degree'', JVal (PInt 16)), (''ef_construction'', JVal (PInt 200))])])) = Inr ()" by (simp add: null_pyvsag_def)
  have I': "Index null_pyvsag ''hnsw'' (json_dumps (JObj
             [(''dtype'', JVal (PStr ''float32'')),
              (''metric_type'', JVal (PStr (if self_metric (ex_self ''l2'' None :: unit vsag) = ''l2''
                                            then ''l2'' else ''ip''))),
              (''dim'', JVal (PInt (int (length [1, 0 :: real])))),
              (''hnsw'', JObj [(''max_degree'', JVal (PInt 16)),
                               (''ef_construction'', JVal (PInt 200))])])) = Inr ()"
    by (simp add: null_pyvsag_def)
  from fit_ids_dense [where np = exact_numpy and st = ex_store and x = 0
                        and self = "ex_self ''l2'' None",
                      OF X ex_hyps(2) ex_hyps(3) I']
  have "\<exists>vs. calls_fit (fit exact_numpy null_pyvsag (ex_self ''l2'' None) ex_store 0) =
       [Call_Index ''hnsw'' (json_dumps (JObj
             [(''dtype'', JVal (PStr ''float32'')),
              (''metric_type'', JVal (PStr ''l2'')),
              (''dim'', JVal (PInt 2)),
              (''hnsw'', JObj [(''max_degree'', JVal (PInt 16)), (''ef_construction'', JVal (PInt 200))])])),
        Call_build \<lparr>arg_vectors = vs, arg_ids = [0, 1], arg_num_elements = 2, arg_dim = 2\<rparr>]"
    by (simp add: ex_hyps(1) X upt_rec numeral_2_eq_2)
  with X I show ?thesis by (intro conjI)
qed

text \<open>
  Claim C5, as amended. In every state that a run of the adapter reaches from
  \<open>__init__\<close>, the \<open>ef_search\<close> value in the search parameters that \<open>query\<close> passes to
  \<open>knn_search\<close> is the integer most recently passed to \<open>set_query_arguments\<close>, and 0
  when \<open>set_query_arguments\<close> has not been called since construction.
\<close>

theorem query_ef_search:
  assumes "init metric d method_param = Inr self0"
      and "run np lib (self0, st0) ops = (self, st)"
      and "self_index self = Some idx"
  shows "\<exists>query_vec. calls_query (query np lib self v n) =
           [Call_knn_search query_vec n
              (json_dumps (JObj [(''hnsw'', JObj [(''ef_search'', JVal (PInt (last_ef 0 ops)))])]))]"
proof -
  have "self_ef self0 = 0" using init_fields [OF assms(1)] by simp
  with run_ef [OF assms(2)] have "self_ef self = last_ef 0 ops" by simp
  with query_calls [OF assms(3), of np lib v n] show ?thesis by simp
qed

text \<open>An instance: \<open>fit\<close>, then \<open>set_query_arguments(40)\<close>, then a query.\<close>

theorem query_ef_search_witness:
  "\<exists>query_vec.
     calls_query (query exact_numpy null_pyvsag (set_query_arguments (ex_self ''l2'' (Some ())) 40) [1, 0] 5) =
     [Call_knn_search query_vec 5
        (json_dumps (JObj [(''hnsw'', JObj [(''ef_search'', JVal (PInt 40))])]))]"
proof -
  have r: "run exact_numpy null_pyvsag (ex_self ''l2'' None, ex_store) [Fit 0, Set_query_arguments 40]
          = (set_query_arguments (ex_self ''l2'' (Some ())) 40, ex_store)"
    by (simp add: run_def ex_fit_l2)
  have i: "self_index (set_query_arguments (ex_self ''l2'' (Some ())) 40) = Some ()"
    by (simp add: set_query_arguments_def ex_self_def Let_def)
  from query_ef_search [OF ex_init(2) r i, where v = "[1, 0]" and n = 5]
  show ?thesis by simp
qed

text \<open>
  Claim C5 as stated fails: after \<open>__init__\<close> and \<open>fit\<close>, with no call of
  \<open>set_query_arguments\<close>, \<open>query\<close> passes \<open>ef_search = 0\<close>, which is not positive.
\<close>

theorem query_ef_search_counterexample:
  "(init ''euclidean'' 2 ex_method_param :: error + unit vsag) = Inr (ex_self ''l2'' None)
   \<and> run exact_numpy null_pyvsag (ex_self ''l2'' None, ex_store) [Fit 0] = (ex_self ''l2'' (Some ()), ex_store)
   \<and> calls_query (query exact_numpy null_pyvsag (ex_self ''l2'' (Some ())) [1, 0] 1) =
       [Call_knn_search [1, 0] 1
          (json_dumps (JObj [(''hnsw'', JObj [(''ef_search'', JVal (PInt 0))])]))]
   \<and> \<not> (0 :: int) < 0"
  by (simp add: ex_init run_def ex_fit_l2 ex_query_l2 calls_query_def)

text \<open>
  Claim C6. The operations that follow \<open>fit\<close> do not reassign \<open>_metric\<close>, \<open>_params\<close>
  or \<open>_index\<close>: after any sequence of calls of \<open>set_query_arguments\<close> and \<open>query\<close> these
  three attributes are what they were; \<open>set_query_arguments(ef)\<close> changes \<open>_ef\<close> and
  \<open>name\<close> and nothing else, and \<open>query\<close> leaves the object as it was.
\<close>

theorem queries_frame:
  assumes "list_all (\<lambda>op. \<not> is_Fit op) ops" and "run np lib (self, st) ops = (self', st')"
  shows "self_metric self' = self_metric self \<and> self_params self' = self_params self
       \<and> self_index self' = self_index self
       \<and> set_query_arguments self ef =
           self\<lparr>self_ef := ef,
                self_name := Format ''efs_%s_%s'' [OInt ef, ODict (self_params self)]\<rparr>
       \<and> fst (snd (query np lib self v n)) = self"
proof -
  have "fst (snd (query np lib self v n)) = self"
    using query_frame [of np lib self v n] by (cases "query np lib self v n") simp
  with run_frame [OF assms(2)] run_no_fit [OF assms] show ?thesis
    by (simp add: set_query_arguments_def Let_def)
qed

text \<open>An instance: \<open>set_query_arguments(40)\<close>, then a query.\<close>

theorem queries_frame_witness:
  "list_all (\<lambda>op. \<not> is_Fit op) [Set_query_arguments 40, Query [1, 0] 5]
   \<and> run exact_numpy null_pyvsag (ex_self ''l2'' (Some ()), ex_store) [Set_query_arguments 40, Query [1, 0] 5]
       = (ex_self ''l2'' (Some ())
            \<lparr>self_ef := 40, self_name := Format ''efs_%s_%s'' [OInt 40, ODict ex_params]\<rparr>,
          ex_store)
   \<and> self_index (ex_self ''l2'' (Some ())
            \<lparr>self_ef := 40, self_name := Format ''efs_%s_%s'' [OInt 40, ODict ex_params]\<rparr>)
       = self_index (ex_self ''l2'' (Some ()) :: unit vsag)"
proof -
  have na: "list_all (\<lambda>op. \<not> is_Fit op) [Set_query_arguments 40, Query [1, 0] 5]" by simp
  have r: "run exact_numpy null_pyvsag (ex_self ''l2'' (Some ()), ex_store)
             [Set_query_arguments 40, Query [1, 0] 5]
       = (ex_self ''l2'' (Some ())
            \<lparr>self_ef := 40, self_name := Format ''efs_%s_%s'' [OInt 40, ODict ex_params]\<rparr>,
          ex_store)"
    by (simp add: run_def set_query_arguments_def query_def null_pyvsag_def ex_self_def Let_def)
  from queries_frame [OF na r, THEN conjunct2, THEN conjunct2, THEN conjunct1] na r
  show ?thesis by (intro conjI)
qed

text \<open>
  Claim C7. \<open>Vsag.query\<close> is deterministic: with \<open>knn_search\<close> a function of its inputs
  (here, a function of the record \<open>lib\<close>), a call of \<open>query\<close> with the arguments
  \<open>(v, n)\<close> made after any number of earlier queries returns what the same call returns
  before them; in particular two successive calls with identical arguments return
  identical id sequences.
\<close>

theorem query_deterministic:
  assumes "list_all is_Query ops"
  shows "query np lib (fst (run np lib (self, st) ops)) v n = query np lib self v n"
  using run_queries [OF assms, of np lib self st] by (cases "run np lib (self, st) ops") simp

text \<open>An instance: the same query twice.\<close>

theorem query_deterministic_witness:
  "list_all is_Query [Query [0, 0] 1]
   \<and> query exact_numpy null_pyvsag
         (fst (run exact_numpy null_pyvsag (ex_self ''ip'' (Some ()), ex_store) [Query [0, 0] 1])) [0, 0] 1
       = query exact_numpy null_pyvsag (ex_self ''ip'' (Some ())) [0, 0] 1"
proof -
  have q: "list_all is_Query [Query [0, 0] 1]" by simp
  from query_deterministic [OF q, where np = exact_numpy and lib = null_pyvsag] q show ?thesis by (intro conjI)
qed

text \<open>
  Claim C8. On an index that is built and holds no vector, the specified \<open>knn_search\<close>
  returns the empty sequence of ids and no error, and \<open>query\<close> on an adapter that holds
  such an index returns that empty sequence, leaving the adapter as it was.
\<close>

theorem knn_search_empty_index:
  assumes "built idx = Some []" and "self_index self = Some idx"
  shows "spec_knn_search idx vector k parameters = Inr ([], [])
       \<and> fst (query np spec_pyvsag self v n) = Inr []
       \<and> fst (snd (query np spec_pyvsag self v n)) = self"
proof -
  have "knn_search spec_pyvsag idx q n p = Inr ([], [])" for q p
    using assms(1) by (simp add: spec_pyvsag_def spec_knn_search_empty)
  from query_result [OF assms(2) this] spec_knn_search_empty [OF assms(1)]
  show ?thesis by simp
qed

text \<open>An instance: an index created and built with no vectors, then queried.\<close>

theorem knn_search_empty_index_witness:
  "spec_Index ''hnsw'' (json_dumps (JObj
       [(''dtype'', JVal (PStr ''float32'')), (''metric_type'', JVal (PStr ''l2'')),
        (''dim'', JVal (PInt 2)),
        (''hnsw'', JObj [(''max_degree'', JVal (PInt 16)),
                         (''ef_construction'', JVal (PInt 200))])]))
     = Inr \<lparr>cfg_metric_type = ''l2'', cfg_dim = 2, cfg_max_degree = 16,
            cfg_ef_construction = 200, built = None\<rparr>
   \<and> spec_build \<lparr>cfg_metric_type = ''l2'', cfg_dim = 2, cfg_max_degree = 16,
                  cfg_ef_construction = 200, built = None\<rparr>
        \<lparr>arg_vectors = [], arg_ids = [], arg_num_elements = 0, arg_dim = 2\<rparr>
     = Inr \<lparr>cfg_metric_type = ''l2'', cfg_dim = 2, cfg_max_degree = 16,
            cfg_ef_construction = 200, built = Some []\<rparr>
   \<and> fst (query exact_numpy spec_pyvsag
        (ex_self ''l2'' (Some \<lparr>cfg_metric_type = ''l2'', cfg_dim = 2, cfg_max_degree = 16,
                               cfg_ef_construction = 200, built = Some []\<rparr>)) [1, 0] 5)
     = Inr []"
proof -
  let ?idx = "\<lparr>cfg_metric_type = ''l2'', cfg_dim = 2, cfg_max_degree = 16,
               cfg_ef_construction = 200, built = Some []\<rparr>"
  have b: "built ?idx = Some []" by simp
  have i: "self_index (ex_self ''l2'' (Some ?idx)) = Some ?idx" by (simp add: ex_self_def)
  have c: "spec_Index ''hnsw'' (json_dumps (JObj
       [(''dtype'', JVal (PStr ''float32'')), (''metric_type'', JVal (PStr ''l2'')),
        (''dim'', JVal (PInt 2)),
        (''hnsw'', JObj [(''max_degree'', JVal (PInt 16)),
                         (''ef_construction'', JVal (PInt 200))])]))
     = Inr \<lparr>cfg_metric_type = ''l2'', cfg_dim = 2, cfg_max_degree = 16,
            cfg_ef_construction = 200, built = None\<rparr>"
    by (simp add: spec_Index_def)
  have d: "spec_build \<lparr>cfg_metric_type = ''l2'', cfg_dim = 2, cfg_max_degree = 16,
                  cfg_ef_construction = 200, built = None\<rparr>
        \<lparr>arg_vectors = [], arg_ids = [], arg_num_elements = 0, arg_dim = 2\<rparr>
     = Inr ?idx"
    by (simp add: spec_build_def)
  from knn_search_empty_index [OF b i, where np = exact_numpy and v = "[1, 0]" and n = 5,
         THEN conjunct2, THEN conjunct1] c d
  show ?thesis by (intro conjI)
qed

text \<open>
  Claim C9. \<open>Vsag.__init__\<close> raises \<open>KeyError\<close> for every metric string other than
  \<open>"euclidean"\<close> (mapped to \<open>"l2"\<close>) and \<open>"angular"\<close> (mapped to \<open>"ip"\<close>), and raises
  \<open>KeyError\<close> whenever \<open>method_param\<close> lacks one of the keys \<open>"M"\<close>,
  \<open>"ef_construction"\<close>, \<open>"use_int8"\<close>; when the metric is one of the two and the three
  keys are present, it completes without error.
\<close>

theorem init_KeyError:
  fixes method_param :: pydict
  defines "present k \<equiv> map_of method_param k \<noteq> None"
  shows "(metric \<noteq> ''euclidean'' \<and> metric \<noteq> ''angular''
            \<longrightarrow> (init metric d method_param :: error + 'idx vsag) = Inl (KeyError metric))
       \<and> (\<not> (present ''M'' \<and> present ''ef_construction'' \<and> present ''use_int8'')
            \<longrightarrow> (\<exists>k. (init metric d method_param :: error + 'idx vsag) = Inl (KeyError k)))
       \<and> ((metric = ''euclidean'' \<or> metric = ''angular'')
            \<and> present ''M'' \<and> present ''ef_construction'' \<and> present ''use_int8''
            \<longrightarrow> (\<exists>self :: 'idx vsag. init metric d method_param = Inr self
                  \<and> self_metric self = (if metric = ''euclidean'' then ''l2'' else ''ip'')))"
  unfolding present_def
  by (auto simp: init_def getitem_def Let_def split: option.splits)

theorem init_KeyError_witness:
  "(init ''cosine'' 8 ex_method_param :: error + unit vsag) = Inl (KeyError ''cosine'')
   \<and> (\<exists>k. (init ''angular'' 8 [(''M'', PInt 16), (''use_int8'', PInt 0)] :: error + unit vsag)
          = Inl (KeyError k))
   \<and> (\<exists>self :: unit vsag. init ''angular'' 8 ex_method_param = Inr self \<and> self_metric self = ''ip'')"
  using init_KeyError [where 'idx = unit and metric = "''cosine''" and d = 8
                         and method_param = ex_method_param]
    init_KeyError [where 'idx = unit and metric = "''angular''" and d = 8
                     and method_param = "[(''M'', PInt 16), (''use_int8'', PInt 0)]"]
    init_KeyError [where 'idx = unit and metric = "''angular''" and d = 8
                     and method_param = ex_method_param]
  by (simp add: ex_method_param_def)

text \<open>
  Claim C10. \<open>Vsag.fit\<close> writes to its argument in place. Once \<open>pyvsag.Index\<close> has
  accepted the configuration, the store that \<open>fit\<close> leaves is, under the inner-product
  metric, the store it found with the caller's array replaced by the rows of \<open>X\<close>, every
  row whose computed L2 norm compares equal to 0 overwritten with the constant
  \<open>1/sqrt(X.shape[1])\<close> and every row then divided by its computed L2 norm; under any
  other metric (that is, \<open>l2\<close>) it is the store it found.
\<close>

theorem fit_mutates_X:
  fixes np :: "'f numpy"
  assumes "st x = r0 # rows"
      and "map_of (self_params self) ''M'' = Some M"
      and "map_of (self_params self) ''efc'' = Some efc"
      and "Index lib ''hnsw'' (json_dumps (JObj
             [(''dtype'', JVal (PStr ''float32'')),
              (''metric_type'', JVal (PStr (if self_metric self = ''l2'' then ''l2'' else ''ip''))),
              (''dim'', JVal (PInt (int (length r0)))),
              (''hnsw'', JObj [(''max_degree'', JVal M), (''ef_construction'', JVal efc)])])) = Inr idx"
  shows "store_fit (fit np lib self st x) =
           (if self_metric self = ''ip''
            then st(x := map (\<lambda>r. let r' = (if eq_zero np (linalg_norm_row np r)
                                              then map (\<lambda>_. recip_sqrt np (length r0)) r
                                              else r)
                                    in map (\<lambda>c. true_divide np c (linalg_norm_row np r')) r')
                             (st x))
            else st)"
proof -
  have h: "hd (st x) = r0" using assms(1) by simp
  have N: "divide_by_norm np (fill_zero_rows np (st x)) =
             map (\<lambda>r. let r' = (if eq_zero np (linalg_norm_row np r)
                                 then map (\<lambda>_. recip_sqrt np (length r0)) r else r)
                       in map (\<lambda>c. true_divide np c (linalg_norm_row np r')) r') (st x)"
    unfolding normalized_rows h ..
  from fit_accepted [where np = np and st = st and x = x, OF assms, THEN conjunct2]
  show ?thesis by (simp add: N)
qed

text \<open>An instance under the inner-product metric.\<close>

theorem fit_mutates_X_witness:
  "ex_store4 0 = [1, 0, 0, 0] # [[0, 0, 0, 0]]
   \<and> Index null_pyvsag ''hnsw'' (json_dumps (JObj
             [(''dtype'', JVal (PStr ''float32'')),
              (''metric_type'', JVal (PStr ''ip'')),
              (''dim'', JVal (PInt 4)),
              (''hnsw'', JObj [(''max_degree'', JVal (PInt 16)), (''ef_construction'', JVal (PInt 200))])])) = Inr ()
   \<and> store_fit (fit exact_numpy null_pyvsag (ex_self ''ip'' None) ex_store4 0) =
       ex_store4(0 := [[1, 0, 0, 0], [1 / 2, 1 / 2, 1 / 2, 1 / 2]])"
proof -
  have X: "ex_store4 0 = [1, 0, 0, 0] # [[0, 0, 0, 0]]" by (simp add: ex_store4_def)
  have I: "Index null_pyvsag ''hnsw'' (json_dumps (JObj
             [(''dtype'', JVal (PStr ''float32'')),
              (''metric_type'', JVal (PStr ''ip'')),
              (''dim'', JVal (PInt 4)),
              (''hnsw'', JObj [(''max_degree'', JVal (PInt 16)), (''ef_construction'', JVal (PInt 200))])])) = Inr ()" by (simp add: null_pyvsag_def)
  have I': "Index null_pyvsag ''hnsw'' (json_dumps (JObj
             [(''dtype'', JVal (PStr ''float32'')),
              (''metric_type'', JVal (PStr (if self_metric (ex_self ''ip'' None :: unit vsag) = ''l2''
                                            then ''l2'' else ''ip''))),
              (''dim'', JVal (PInt (int (length [1, 0, 0, 0 :: real])))),
              (''hnsw'', JObj [(''max_degree'', JVal (PInt 16)),
                               (''ef_construction'', JVal (PInt 200))])])) = Inr ()"
    by (simp add: null_pyvsag_def)
  from fit_mutates_X [where np = exact_numpy and st = ex_store4 and x = 0
                        and self = "ex_self ''ip'' None",
                      OF X ex_hyps(2) ex_hyps(3) I']
  have "store_fit (fit exact_numpy null_pyvsag (ex_self ''ip'' None) ex_store4 0) =
       ex_store4(0 := [[1, 0, 0, 0], [1 / 2, 1 / 2, 1 / 2, 1 / 2]])"
    by (simp add: ex_hyps(1) X exact_numpy_def exact_norm_def power_divide)
  with X I show ?thesis by (intro conjI)
qed

end
